theory Spec2Isabelle
  imports
    Complex_Main
    "HOL-Library.Char_ord"
    "HOL-Library.List_Lexorder"
    "HOL-Library.Multiset"
begin

section \<open>The store\<close>

text \<open>
  The program keeps two SQLite tables, created by \<^verbatim>\<open>init_db\<close>:
  \<^verbatim>\<open>
  CREATE TABLE IF NOT EXISTS expenses(
      id INTEGER PRIMARY KEY AUTOINCREMENT, date TEXT NOT NULL, amount REAL NOT NULL,
      category TEXT NOT NULL, subcategory TEXT DEFAULT '', note TEXT DEFAULT '')
  CREATE TABLE IF NOT EXISTS income(
      id INTEGER PRIMARY KEY AUTOINCREMENT, date TEXT NOT NULL, amount REAL NOT NULL,
      source TEXT NOT NULL, note TEXT DEFAULT '')
  \<close>
  A row is a record of its columns. Text is \<open>string\<close> (bytes, compared as SQLite's
  BINARY collation compares them: lexicographically, a proper prefix first). A stored
  amount is the \<open>real\<close> number that the double in the REAL column denotes. The sums that
  SQLite forms of amounts are sums of doubles; they are not computed on these numbers
  (see the section on summaries). Text arguments are strings.

  Every tool opens its own connection, runs its statements and commits. The calls are
  taken one at a time, each on the store the call before it left. A call that fails for
  a reason outside the rows (a file that cannot be written, a lock that is held) writes
  nothing and returns an error result; the model has the calls that the store answers,
  and of the store's own refusals the one that depends on the rows, the exhausted rowid.
\<close>

record expense_row =
  e_id :: int
  e_date :: string
  e_amount :: real
  e_category :: string
  e_subcategory :: string
  e_note :: string

record income_row =
  i_id :: int
  i_date :: string
  i_amount :: real
  i_source :: string
  i_note :: string

text \<open>
  A table is the list of its rows in rowid order, the order of a table scan. Both ids are
  AUTOINCREMENT, so SQLite also keeps, per table, the largest rowid ever given out (table
  \<^verbatim>\<open>sqlite_sequence\<close>); a table that never had a row counts as 0.
\<close>

record store =
  expenses :: "expense_row list"
  income :: "income_row list"
  expenses_seq :: int
  income_seq :: int

definition empty_store :: store where
  "empty_store = \<lparr>expenses = [], income = [], expenses_seq = 0, income_seq = 0\<rparr>"

subsection \<open>Numbers and identifiers as the tools receive them\<close>

text \<open>
  An amount arrives as a Python number: an \<^verbatim>\<open>int\<close> of any size, or a \<^verbatim>\<open>float\<close>, here the real
  number the float denotes (infinities and NaN are not among the arguments). An
  identifier arrives as an \<^verbatim>\<open>int\<close> of any size.

  Binding a parameter of a statement raises \<^verbatim>\<open>OverflowError\<close> ("Python int too large to
  convert to SQLite INTEGER") for an \<^verbatim>\<open>int\<close> outside the signed 64-bit range; the statement
  is then not run. The column \<^verbatim>\<open>amount\<close> has REAL affinity: an integer written to it
  becomes the nearest double, ties going to the even significand (53 bits); a float is
  stored as it is. The rows come back with the amount as a float.
\<close>

datatype number = PyInt int | PyFloat real

definition int64 :: "int \<Rightarrow> bool" where
  "int64 i \<longleftrightarrow> - 9223372036854775808 \<le> i \<and> i \<le> 9223372036854775807"

fun bindable :: "number \<Rightarrow> bool" where
  "bindable (PyInt i) = int64 i"
| "bindable (PyFloat x) = True"

text \<open>The number of low bits of \<open>n\<close> that a significand of 53 bits cannot hold.\<close>

function drop_count :: "nat \<Rightarrow> nat" where
  "drop_count n = (if n < 9007199254740992 then 0 else Suc (drop_count (n div 2)))"
  by pat_completeness auto
termination
  by (relation "measure (\<lambda>n. n)") auto

declare drop_count.simps [simp del]

text \<open>\<open>n / 2 ^ k\<close> rounded to the nearest integer, a tie to the even one.\<close>

definition round_half_even :: "nat \<Rightarrow> nat \<Rightarrow> nat" where
  "round_half_even n k =
     (let q = n div 2 ^ k; r = n mod 2 ^ k
      in if 2 * r < 2 ^ k then q
         else if 2 ^ k < 2 * r then q + 1
         else if even q then q else q + 1)"

text \<open>The integer that the nearest double to \<open>i\<close> holds, and that double as a stored amount.\<close>

definition nearest_double :: "int \<Rightarrow> int" where
  "nearest_double i =
     (let n = nat \<bar>i\<bar>; k = drop_count n
      in sgn i * int (round_half_even n k * 2 ^ k))"

definition double_of_int :: "int \<Rightarrow> real" where
  "double_of_int i = of_int (nearest_double i)"

text \<open>The REAL that is stored for a bound amount, and the number an argument denotes.\<close>

fun sqlite_real :: "number \<Rightarrow> real" where
  "sqlite_real (PyInt i) = double_of_int i"
| "sqlite_real (PyFloat x) = x"


text \<open>
  The results of the tools. A failure is \<^verbatim>\<open>{"status": "error", "message": m}\<close>; the
  constructors stand for the messages the source builds:
  \<^item> \<open>NotFound Expense n\<close>: \<^verbatim>\<open>f"Expense with id {n} not found"\<close> (and \<open>Income\<close> alike),
  \<^item> \<open>NoOp\<close>: \<^verbatim>\<open>"No fields to update"\<close>,
  \<^item> \<open>StoreError\<close>: \<^verbatim>\<open>f"Database error: {str(e)}"\<close> for an exception \<^verbatim>\<open>e\<close> of the store,
    caught by the tool's \<^verbatim>\<open>except Exception\<close>,
  \<^item> \<open>Overflow\<close>: the message of the tool's \<^verbatim>\<open>except Exception\<close> branch for the
    \<^verbatim>\<open>OverflowError\<close> of a binding, such as \<^verbatim>\<open>"Error editing expense: Python int too large to
    convert to SQLite INTEGER"\<close>.
\<close>

datatype table = Expense | Income

datatype error = NotFound table int | NoOp | StoreError | Overflow

text \<open>\<^verbatim>\<open>{"status": "ok", "id": expense_id, "updated_fields": len(updates)}\<close>\<close>

record edit_ok =
  ok_id :: int
  updated_fields :: nat

subsection \<open>The statements of SQL the tools run\<close>

text \<open>
  AUTOINCREMENT: the new rowid is one more than the larger of the largest rowid in the
  table and the one recorded in \<^verbatim>\<open>sqlite_sequence\<close>, which then records the new one.
  When that is already the largest 64-bit integer the INSERT fails (SQLITE_FULL) and no
  row is written.
\<close>

definition max_rowid :: int where
  "max_rowid = 9223372036854775807"

definition largest_rowid :: "int \<Rightarrow> int list \<Rightarrow> int" where
  "largest_rowid seq ids = fold max ids seq"

text \<open>
  \<^verbatim>\<open>INSERT INTO expenses(date, amount, category, subcategory, note) VALUES (?,?,?,?,?)\<close>;
  the result is \<^verbatim>\<open>cur.lastrowid\<close> and the store after the commit, or \<open>None\<close> for the
  exception.
\<close>

definition insert_expense ::
    "store \<Rightarrow> string \<Rightarrow> real \<Rightarrow> string \<Rightarrow> string \<Rightarrow> string \<Rightarrow> (int \<times> store) option" where
  "insert_expense s date amount category subcategory note =
     (let top = largest_rowid (expenses_seq s) (map e_id (expenses s))
      in if max_rowid \<le> top then None
         else Some (top + 1,
           s\<lparr>expenses := expenses s @
                [\<lparr>e_id = top + 1, e_date = date, e_amount = amount, e_category = category,
                  e_subcategory = subcategory, e_note = note\<rparr>],
              expenses_seq := top + 1\<rparr>))"

text \<open>\<^verbatim>\<open>INSERT INTO income(date, amount, source, note) VALUES (?,?,?,?)\<close>\<close>

definition insert_income ::
    "store \<Rightarrow> string \<Rightarrow> real \<Rightarrow> string \<Rightarrow> string \<Rightarrow> (int \<times> store) option" where
  "insert_income s date amount source note =
     (let top = largest_rowid (income_seq s) (map i_id (income s))
      in if max_rowid \<le> top then None
         else Some (top + 1,
           s\<lparr>income := income s @
                [\<lparr>i_id = top + 1, i_date = date, i_amount = amount, i_source = source,
                  i_note = note\<rparr>],
              income_seq := top + 1\<rparr>))"

text \<open>\<^verbatim>\<open>WHERE date BETWEEN ? AND ?\<close>, on text.\<close>

definition between :: "string \<Rightarrow> string \<Rightarrow> string \<Rightarrow> bool" where
  "between d start_date end_date \<longleftrightarrow> start_date \<le> d \<and> d \<le> end_date"

text \<open>
  \<^verbatim>\<open>ORDER BY\<close>: a sort by insertion under the relation "may stand before". Where two
  rows tie under the relation SQLite leaves their order open; the sort keeps them in the
  order of the scan.
\<close>

fun insert_by :: "('a \<Rightarrow> 'a \<Rightarrow> bool) \<Rightarrow> 'a \<Rightarrow> 'a list \<Rightarrow> 'a list" where
  "insert_by ahead x [] = [x]"
| "insert_by ahead x (y # ys) =
     (if ahead x y then x # y # ys else y # insert_by ahead x ys)"

fun order_by :: "('a \<Rightarrow> 'a \<Rightarrow> bool) \<Rightarrow> 'a list \<Rightarrow> 'a list" where
  "order_by ahead [] = []"
| "order_by ahead (x # xs) = insert_by ahead x (order_by ahead xs)"

text \<open>\<^verbatim>\<open>ORDER BY date DESC, id DESC\<close>\<close>

definition expense_before :: "expense_row \<Rightarrow> expense_row \<Rightarrow> bool" where
  "expense_before a b \<longleftrightarrow> e_date b < e_date a \<or> (e_date a = e_date b \<and> e_id b \<le> e_id a)"

definition income_before :: "income_row \<Rightarrow> income_row \<Rightarrow> bool" where
  "income_before a b \<longleftrightarrow> i_date b < i_date a \<or> (i_date a = i_date b \<and> i_id b \<le> i_id a)"

section \<open>The initializer\<close>

text \<open>
  \<^verbatim>\<open>init_db\<close> runs when the module is loaded, on the file at \<^verbatim>\<open>DB_PATH\<close>: \<open>None\<close> is a
  file without the tables (a new one), \<open>Some s\<close> the store an earlier run of the program
  left there. The two \<^verbatim>\<open>CREATE TABLE IF NOT EXISTS\<close> make the empty tables of a new file
  and leave existing ones as they are. Then
  \<^verbatim>\<open>
  INSERT OR IGNORE INTO expenses(date, amount, category) VALUES ('2000-01-01', 0, 'test')
  DELETE FROM expenses WHERE category = 'test'
  \<close>
  where subcategory and note of the probe take the column default \<^verbatim>\<open>''\<close>. An exception is
  raised again (\<open>Inl\<close>): the process does not start.
\<close>

definition init_db :: "store option \<Rightarrow> error + store" where
  "init_db file =
     (let s = (case file of None \<Rightarrow> empty_store | Some s \<Rightarrow> s)
      in case insert_expense s ''2000-01-01'' 0 ''test'' '''' '''' of
           None \<Rightarrow> Inl StoreError
         | Some (probe, s1) \<Rightarrow>
             Inr (s1\<lparr>expenses := filter (\<lambda>r. e_category r \<noteq> ''test'') (expenses s1)\<rparr>))"

section \<open>Expense tools\<close>

text \<open>
  \<^verbatim>\<open>add_expense(date, amount, category, subcategory="", note="")\<close>: an optional argument
  is \<open>None\<close> when the caller leaves it out, and then has the default of the signature.
  The amount is bound when the INSERT is executed; an \<^verbatim>\<open>OverflowError\<close> there goes to the
  \<^verbatim>\<open>except\<close> branch and nothing is written.
\<close>

definition add_expense ::
    "store \<Rightarrow> string \<Rightarrow> number \<Rightarrow> string \<Rightarrow> string option \<Rightarrow> string option
      \<Rightarrow> (error + int) \<times> store" where
  "add_expense s date amount category subcategory note =
     (if \<not> bindable amount then (Inl Overflow, s)
      else case insert_expense s date (sqlite_real amount) category
                  (case subcategory of None \<Rightarrow> '''' | Some x \<Rightarrow> x)
                  (case note of None \<Rightarrow> '''' | Some x \<Rightarrow> x) of
             None \<Rightarrow> (Inl StoreError, s)
           | Some (expense_id, s') \<Rightarrow> (Inr expense_id, s'))"

text \<open>
  \<^verbatim>\<open>edit_expense\<close> collects \<^verbatim>\<open>updates\<close> and \<^verbatim>\<open>params\<close> side by side; an entry of the two
  lists together is one assignment of the \<^verbatim>\<open>UPDATE ... SET\<close>. Here \<open>None\<close> is Python's
  \<^verbatim>\<open>None\<close>, the default of every optional argument. The identifier is bound first, by
  the pre-read \<^verbatim>\<open>SELECT * FROM expenses WHERE id = ?\<close>; the amount is bound when the UPDATE
  is executed, after the test for an empty \<^verbatim>\<open>updates\<close>.
\<close>

datatype expense_assignment =
  Set_date string | Set_amount number | Set_category string | Set_subcategory string
  | Set_note string

fun assign_expense :: "expense_assignment \<Rightarrow> expense_row \<Rightarrow> expense_row" where
  "assign_expense (Set_date v) r = r\<lparr>e_date := v\<rparr>"
| "assign_expense (Set_amount v) r = r\<lparr>e_amount := sqlite_real v\<rparr>"
| "assign_expense (Set_category v) r = r\<lparr>e_category := v\<rparr>"
| "assign_expense (Set_subcategory v) r = r\<lparr>e_subcategory := v\<rparr>"
| "assign_expense (Set_note v) r = r\<lparr>e_note := v\<rparr>"

definition supplied :: "('v \<Rightarrow> 'u) \<Rightarrow> 'v option \<Rightarrow> 'u list" where
  "supplied column arg = (case arg of None \<Rightarrow> [] | Some v \<Rightarrow> [column v])"

definition expense_updates ::
    "string option \<Rightarrow> number option \<Rightarrow> string option \<Rightarrow> string option \<Rightarrow> string option
      \<Rightarrow> expense_assignment list" where
  "expense_updates date amount category subcategory note =
     supplied Set_date date @ supplied Set_amount amount @ supplied Set_category category
     @ supplied Set_subcategory subcategory @ supplied Set_note note"

text \<open>Whether every parameter of the UPDATE can be bound, the identifier apart.\<close>

definition params_bind :: "number option \<Rightarrow> bool" where
  "params_bind amount = (case amount of None \<Rightarrow> True | Some v \<Rightarrow> bindable v)"

definition edit_expense ::
    "store \<Rightarrow> int \<Rightarrow> string option \<Rightarrow> number option \<Rightarrow> string option \<Rightarrow> string option
      \<Rightarrow> string option \<Rightarrow> (error + edit_ok) \<times> store" where
  "edit_expense s expense_id date amount category subcategory note =
     (if \<not> int64 expense_id then (Inl Overflow, s)
      else case find (\<lambda>r. e_id r = expense_id) (expenses s) of
        None \<Rightarrow> (Inl (NotFound Expense expense_id), s)
      | Some row \<Rightarrow>
          (let updates = expense_updates date amount category subcategory note
           in if updates = [] then (Inl NoOp, s)
              else if \<not> params_bind amount then (Inl Overflow, s)
              else (Inr \<lparr>ok_id = expense_id, updated_fields = length updates\<rparr>,
                    s\<lparr>expenses :=
                        map (\<lambda>r. if e_id r = expense_id then fold assign_expense updates r
                                 else r)
                          (expenses s)\<rparr>)))"

text \<open>\<^verbatim>\<open>delete_expense\<close>: the same pre-read, then \<^verbatim>\<open>DELETE FROM expenses WHERE id = ?\<close>.\<close>

definition delete_expense :: "store \<Rightarrow> int \<Rightarrow> (error + int) \<times> store" where
  "delete_expense s expense_id =
     (if \<not> int64 expense_id then (Inl Overflow, s)
      else case find (\<lambda>r. e_id r = expense_id) (expenses s) of
        None \<Rightarrow> (Inl (NotFound Expense expense_id), s)
      | Some row \<Rightarrow>
          (Inr expense_id, s\<lparr>expenses := filter (\<lambda>r. e_id r \<noteq> expense_id) (expenses s)\<rparr>))"

text \<open>
  \<^verbatim>\<open>list_expenses\<close>: every fetched row becomes a dict of its columns, which is the row
  record again.
\<close>

definition list_expenses :: "store \<Rightarrow> string \<Rightarrow> string \<Rightarrow> expense_row list" where
  "list_expenses s start_date end_date =
     order_by expense_before (filter (\<lambda>r. between (e_date r) start_date end_date) (expenses s))"

section \<open>Income tools\<close>

definition add_income ::
    "store \<Rightarrow> string \<Rightarrow> number \<Rightarrow> string \<Rightarrow> string option \<Rightarrow> (error + int) \<times> store" where
  "add_income s date amount source note =
     (if \<not> bindable amount then (Inl Overflow, s)
      else case insert_income s date (sqlite_real amount) source
                  (case note of None \<Rightarrow> '''' | Some x \<Rightarrow> x) of
             None \<Rightarrow> (Inl StoreError, s)
           | Some (income_id, s') \<Rightarrow> (Inr income_id, s'))"

definition list_income :: "store \<Rightarrow> string \<Rightarrow> string \<Rightarrow> income_row list" where
  "list_income s start_date end_date =
     order_by income_before (filter (\<lambda>r. between (i_date r) start_date end_date) (income s))"

datatype income_assignment =
  Set_idate string | Set_iamount number | Set_source string | Set_inote string

fun assign_income :: "income_assignment \<Rightarrow> income_row \<Rightarrow> income_row" where
  "assign_income (Set_idate v) r = r\<lparr>i_date := v\<rparr>"
| "assign_income (Set_iamount v) r = r\<lparr>i_amount := sqlite_real v\<rparr>"
| "assign_income (Set_source v) r = r\<lparr>i_source := v\<rparr>"
| "assign_income (Set_inote v) r = r\<lparr>i_note := v\<rparr>"

definition income_updates ::
    "string option \<Rightarrow> number option \<Rightarrow> string option \<Rightarrow> string option
      \<Rightarrow> income_assignment list" where
  "income_updates date amount source note =
     supplied Set_idate date @ supplied Set_iamount amount @ supplied Set_source source
     @ supplied Set_inote note"

definition edit_income ::
    "store \<Rightarrow> int \<Rightarrow> string option \<Rightarrow> number option \<Rightarrow> string option \<Rightarrow> string option
      \<Rightarrow> (error + edit_ok) \<times> store" where
  "edit_income s income_id date amount source note =
     (if \<not> int64 income_id then (Inl Overflow, s)
      else case find (\<lambda>r. i_id r = income_id) (income s) of
        None \<Rightarrow> (Inl (NotFound Income income_id), s)
      | Some row \<Rightarrow>
          (let updates = income_updates date amount source note
           in if updates = [] then (Inl NoOp, s)
              else if \<not> params_bind amount then (Inl Overflow, s)
              else (Inr \<lparr>ok_id = income_id, updated_fields = length updates\<rparr>,
                    s\<lparr>income :=
                        map (\<lambda>r. if i_id r = income_id then fold assign_income updates r
                                 else r)
                          (income s)\<rparr>)))"

definition delete_income :: "store \<Rightarrow> int \<Rightarrow> (error + int) \<times> store" where
  "delete_income s income_id =
     (if \<not> int64 income_id then (Inl Overflow, s)
      else case find (\<lambda>r. i_id r = income_id) (income s) of
        None \<Rightarrow> (Inl (NotFound Income income_id), s)
      | Some row \<Rightarrow>
          (Inr income_id, s\<lparr>income := filter (\<lambda>r. i_id r \<noteq> income_id) (income s)\<rparr>))"

section \<open>Summaries\<close>

text \<open>
  \<^verbatim>\<open>summarize(start_date, end_date, category=None)\<close>: the test \<^verbatim>\<open>if category:\<close> is
  Python's truth value, false for \<^verbatim>\<open>None\<close> and for the empty string. \<^verbatim>\<open>GROUP BY category\<close>
  makes one row for each category among the selected rows, with \<^verbatim>\<open>SUM(amount)\<close> and the
  number of rows of the group; \<^verbatim>\<open>ORDER BY total_amount DESC\<close> sorts them.

  \<^verbatim>\<open>SUM\<close> adds doubles inside SQLite: what it returns for a group depends on the rounding
  of each addition and on the way SQLite accumulates, which the program does not fix.
  It is a parameter here, \<open>sum_amounts\<close>, from the amounts of a group in scan order to a
  total of a type with the order that \<^verbatim>\<open>ORDER BY\<close> uses. \<^verbatim>\<open>get_balance\<close>, which returns two
  such sums and their difference in Python's float arithmetic, has no definition here.
\<close>

record 't category_summary =
  sum_category :: string
  total_amount :: 't
  row_count :: nat

definition group_by_category ::
    "(real list \<Rightarrow> 't) \<Rightarrow> expense_row list \<Rightarrow> 't category_summary list" where
  "group_by_category sum_amounts rows =
     map (\<lambda>c. \<lparr>sum_category = c,
               total_amount = sum_amounts (map e_amount (filter (\<lambda>r. e_category r = c) rows)),
               row_count = length (filter (\<lambda>r. e_category r = c) rows)\<rparr>)
       (remdups (map e_category rows))"

definition summary_before ::
    "('t :: linorder) category_summary \<Rightarrow> 't category_summary \<Rightarrow> bool" where
  "summary_before a b \<longleftrightarrow> total_amount b \<le> total_amount a"

definition summarize ::
    "(real list \<Rightarrow> 't :: linorder) \<Rightarrow> store \<Rightarrow> string \<Rightarrow> string \<Rightarrow> string option
      \<Rightarrow> 't category_summary list" where
  "summarize sum_amounts s start end category =
     (let rows = filter (\<lambda>r. between (e_date r) start end) (expenses s);
          rows = (case category of
                    None \<Rightarrow> rows
                  | Some c \<Rightarrow> if c = '''' then rows else filter (\<lambda>r. e_category r = c) rows)
      in order_by summary_before (group_by_category sum_amounts rows))"

section \<open>Runs of the program\<close>

text \<open>
  The calls that can change the store: the six mutating tools, and a new start of the
  process, which runs \<^verbatim>\<open>init_db\<close> on the store as it is. A start that raises leaves the
  rows as they were.
\<close>

datatype call =
  Add_expense string number string "string option" "string option"
  | Edit_expense int "string option" "number option" "string option" "string option"
      "string option"
  | Delete_expense int
  | Add_income string number string "string option"
  | Edit_income int "string option" "number option" "string option" "string option"
  | Delete_income int
  | Restart

fun exec :: "store \<Rightarrow> call \<Rightarrow> store" where
  "exec s (Add_expense d a c sc n) = snd (add_expense s d a c sc n)"
| "exec s (Edit_expense i d a c sc n) = snd (edit_expense s i d a c sc n)"
| "exec s (Delete_expense i) = snd (delete_expense s i)"
| "exec s (Add_income d a src n) = snd (add_income s d a src n)"
| "exec s (Edit_income i d a src n) = snd (edit_income s i d a src n)"
| "exec s (Delete_income i) = snd (delete_income s i)"
| "exec s Restart = (case init_db (Some s) of Inl e \<Rightarrow> s | Inr s' \<Rightarrow> s')"

text \<open>The identifiers a call gives to new rows of each table (the probe of a start included).\<close>

fun new_expense_ids :: "store \<Rightarrow> call \<Rightarrow> int list" where
  "new_expense_ids s (Add_expense d a c sc n) =
     (case fst (add_expense s d a c sc n) of Inl e \<Rightarrow> [] | Inr i \<Rightarrow> [i])"
| "new_expense_ids s Restart =
     (case insert_expense s ''2000-01-01'' 0 ''test'' '''' '''' of
        None \<Rightarrow> [] | Some (probe, s1) \<Rightarrow> [probe])"
| "new_expense_ids s c = []"

fun new_income_ids :: "store \<Rightarrow> call \<Rightarrow> int list" where
  "new_income_ids s (Add_income d a src n) =
     (case fst (add_income s d a src n) of Inl e \<Rightarrow> [] | Inr i \<Rightarrow> [i])"
| "new_income_ids s c = []"

fun run :: "store \<Rightarrow> call list \<Rightarrow> store" where
  "run s [] = s"
| "run s (c # cs) = run (exec s c) cs"

fun assigned_expense_ids :: "store \<Rightarrow> call list \<Rightarrow> int list" where
  "assigned_expense_ids s [] = []"
| "assigned_expense_ids s (c # cs) = new_expense_ids s c @ assigned_expense_ids (exec s c) cs"

fun assigned_income_ids :: "store \<Rightarrow> call list \<Rightarrow> int list" where
  "assigned_income_ids s [] = []"
| "assigned_income_ids s (c # cs) = new_income_ids s c @ assigned_income_ids (exec s c) cs"

text \<open>
  What the runs keep true of each table: no identifier occurs twice, and none is above
  the value \<^verbatim>\<open>sqlite_sequence\<close> records for the table.
\<close>

definition ids_ok :: "int list \<Rightarrow> int \<Rightarrow> bool" where
  "ids_ok ids seq \<longleftrightarrow> distinct ids \<and> list_all (\<lambda>i. i \<le> seq) ids"

definition expenses_ok :: "store \<Rightarrow> bool" where
  "expenses_ok s \<longleftrightarrow> ids_ok (map e_id (expenses s)) (expenses_seq s)"

definition income_ok :: "store \<Rightarrow> bool" where
  "income_ok s \<longleftrightarrow> ids_ok (map i_id (income s)) (income_seq s)"

definition store_ok :: "store \<Rightarrow> bool" where
  "store_ok s \<longleftrightarrow> expenses_ok s \<and> income_ok s"


section \<open>A store to run the tools on\<close>

text \<open>
  A store as the tools can leave it: expense 4 and income 2 once existed and are deleted,
  expense 3 was added by a caller under the category \<^verbatim>\<open>test\<close>.
\<close>

definition example_store :: store where
  "example_store =
     \<lparr>expenses =
        [\<lparr>e_id = 2, e_date = ''2024-01-05'', e_amount = 50, e_category = ''Food & Dining'',
          e_subcategory = ''lunch'', e_note = ''''\<rparr>,
         \<lparr>e_id = 3, e_date = ''2024-01-10'', e_amount = 20, e_category = ''test'',
          e_subcategory = '''', e_note = ''probe?''\<rparr>,
         \<lparr>e_id = 5, e_date = ''2024-01-10'', e_amount = 7, e_category = ''Food & Dining'',
          e_subcategory = '''', e_note = ''''\<rparr>],
      income =
        [\<lparr>i_id = 1, i_date = ''2024-01-07'', i_amount = 1000, i_source = ''Salary'',
          i_note = ''''\<rparr>],
      expenses_seq = 5, income_seq = 2\<rparr>"

section \<open>Binding\<close>





lemma int64_example [simp]: "int64 2" "int64 3" "int64 4" "int64 1" "int64 5"
  "\<not> int64 9223372036854775808"
  by (simp_all add: int64_def)

section \<open>Editing and deleting\<close>

lemma find_id_None: "find (\<lambda>r. f r = i) xs = None \<longleftrightarrow> i \<notin> f ` set xs"
  by (auto simp: find_None_iff)

lemma find_id_missing: "i \<notin> f ` set xs \<Longrightarrow> find (\<lambda>r. f r = i) xs = None"
  by (simp add: find_id_None)


text \<open>
  C1, as the spec states it: an edit that supplies no optional field returns \<open>NoOp\<close>
  whether or not the identifier exists. The pre-read comes first in both tools, so for an
  identifier without a row the answer is \<open>NotFound\<close>: expense 4 and income 4 of the
  example store.
\<close>

theorem edit_no_fields_counterexample:
  "fst (edit_expense example_store 4 None None None None None) = Inl (NotFound Expense 4)
   \<and> fst (edit_expense example_store 4 None None None None None) \<noteq> Inl NoOp
   \<and> fst (edit_income example_store 4 None None None None) \<noteq> Inl NoOp"
  by (simp add: edit_expense_def edit_income_def example_store_def)

text \<open>
  C1, amended: \<^verbatim>\<open>edit_expense\<close> and \<^verbatim>\<open>edit_income\<close> with no optional field supplied
  return \<open>NoOp\<close> when a row with the identifier exists, \<open>NotFound\<close> when the identifier is
  a 64-bit integer without a row, and the error of the failed binding when the
  identifier is outside the 64-bit range; in every case the store is left as it was.
\<close>

theorem edit_no_fields:
  "edit_expense s expense_id None None None None None =
     (if \<not> int64 expense_id then Inl Overflow
      else if expense_id \<in> e_id ` set (expenses s) then Inl NoOp
      else Inl (NotFound Expense expense_id), s)
   \<and> edit_income s income_id None None None None =
     (if \<not> int64 income_id then Inl Overflow
      else if income_id \<in> i_id ` set (income s) then Inl NoOp
      else Inl (NotFound Income income_id), s)"
proof -
  have e: "expense_updates None None None None None = []"
    by (simp add: expense_updates_def supplied_def)
  have i: "income_updates None None None None = []"
    by (simp add: income_updates_def supplied_def)
  show ?thesis
    using find_id_None [of e_id expense_id "expenses s"]
      find_id_None [of i_id income_id "income s"]
    by (auto simp: edit_expense_def edit_income_def e i split: option.splits)
qed

theorem edit_no_fields_witness:
  "edit_expense example_store 3 None None None None None = (Inl NoOp, example_store)
   \<and> edit_expense example_store 4 None None None None None
       = (Inl (NotFound Expense 4), example_store)
   \<and> edit_expense example_store 9223372036854775808 None None None None None
       = (Inl Overflow, example_store)
   \<and> edit_income example_store 1 None None None None = (Inl NoOp, example_store)
   \<and> edit_income example_store 2 None None None None
       = (Inl (NotFound Income 2), example_store)"
  using edit_no_fields [of example_store 3 1] edit_no_fields [of example_store 4 2]
    edit_no_fields [of example_store 9223372036854775808 2]
  by (simp add: example_store_def)

text \<open>
  C2, as the spec states it: every identifier that no row has is answered with
  \<open>NotFound\<close>. An identifier outside the signed 64-bit range cannot be bound to the
  pre-read, which raises; the tools then return the message of their \<^verbatim>\<open>except\<close> branch:
  \<open>2 ^ 63\<close> on the example store.
\<close>

theorem missing_id_counterexample:
  "9223372036854775808 \<notin> e_id ` set (expenses example_store)
   \<and> fst (delete_expense example_store 9223372036854775808)
       \<noteq> Inl (NotFound Expense 9223372036854775808)
   \<and> fst (edit_expense example_store 9223372036854775808 (Some ''2024-02-01'') None None
            None None)
       \<noteq> Inl (NotFound Expense 9223372036854775808)
   \<and> fst (delete_income example_store 9223372036854775808)
       \<noteq> Inl (NotFound Income 9223372036854775808)"
  by (simp add: delete_expense_def edit_expense_def delete_income_def example_store_def)

text \<open>
  C2, amended: for an identifier that no row of the table has, \<^verbatim>\<open>edit_expense\<close>,
  \<^verbatim>\<open>delete_expense\<close>, \<^verbatim>\<open>edit_income\<close> and \<^verbatim>\<open>delete_income\<close> return \<open>NotFound\<close> when the
  identifier is in the signed 64-bit range and the error of the failed binding when it
  is not, whatever fields are supplied; the store they leave is the store they found.
  The answer comes from the pre-read: no UPDATE or DELETE is reached.
\<close>

theorem missing_id_not_found:
  "(expense_id \<notin> e_id ` set (expenses s) \<longrightarrow>
      edit_expense s expense_id date amount category subcategory note
        = (if int64 expense_id then Inl (NotFound Expense expense_id) else Inl Overflow, s)
      \<and> delete_expense s expense_id
        = (if int64 expense_id then Inl (NotFound Expense expense_id) else Inl Overflow, s))
   \<and> (income_id \<notin> i_id ` set (income s) \<longrightarrow>
      edit_income s income_id date amount source note
        = (if int64 income_id then Inl (NotFound Income income_id) else Inl Overflow, s)
      \<and> delete_income s income_id
        = (if int64 income_id then Inl (NotFound Income income_id) else Inl Overflow, s))"
  by (simp add: edit_expense_def edit_income_def delete_expense_def delete_income_def
      find_id_missing)

theorem missing_id_not_found_witness:
  "4 \<notin> e_id ` set (expenses example_store) \<and> 2 \<notin> i_id ` set (income example_store)
   \<and> edit_expense example_store 4 (Some ''2024-02-01'') (Some (PyInt 3)) None (Some '''') None
       = (Inl (NotFound Expense 4), example_store)
   \<and> delete_expense example_store 4 = (Inl (NotFound Expense 4), example_store)
   \<and> edit_income example_store 2 (Some ''2024-02-01'') (Some (PyInt 3)) None None
       = (Inl (NotFound Income 2), example_store)
   \<and> delete_income example_store 2 = (Inl (NotFound Income 2), example_store)
   \<and> delete_expense example_store 9223372036854775808 = (Inl Overflow, example_store)
   \<and> delete_income example_store (- 9223372036854775809) = (Inl Overflow, example_store)"
proof -
  have a: "4 \<notin> e_id ` set (expenses example_store)"
    by (simp add: example_store_def)
  have b: "2 \<notin> i_id ` set (income example_store)"
    by (simp add: example_store_def)
  have c: "9223372036854775808 \<notin> e_id ` set (expenses example_store)"
    by (simp add: example_store_def)
  have d: "- 9223372036854775809 \<notin> i_id ` set (income example_store)"
    by (simp add: example_store_def)
  have e: "\<not> int64 (- 9223372036854775809)"
    by (simp add: int64_def)
  show ?thesis
    using a b c d e
      missing_id_not_found [of 4 example_store "Some ''2024-02-01''" "Some (PyInt 3)" None
        "Some ''''" None 2 None]
      missing_id_not_found [of 9223372036854775808 example_store None None None None None
        "- 9223372036854775809" None]
    by simp
qed












section \<open>Listing\<close>

lemma mset_insert_by: "mset (insert_by ahead x xs) = add_mset x (mset xs)"
  by (induction xs) auto

lemma mset_order_by: "mset (order_by ahead xs) = mset xs"
  by (induction xs) (auto simp: mset_insert_by)


lemma set_insert_by: "set (insert_by ahead x xs) = insert x (set xs)"
  by (induction xs) auto

lemma sorted_wrt_insert_by:
  assumes total: "\<And>x y. ahead x y \<or> ahead y x"
    and trans: "\<And>x y z. ahead x y \<Longrightarrow> ahead y z \<Longrightarrow> ahead x z"
  shows "sorted_wrt ahead xs \<Longrightarrow> sorted_wrt ahead (insert_by ahead x xs)"
proof (induction xs)
  case Nil
  then show ?case by simp
next
  case (Cons y ys)
  show ?case
  proof (cases "ahead x y")
    case True
    then have "\<forall>z\<in>set ys. ahead x z"
      using Cons.prems trans by auto
    with True Cons.prems show ?thesis by simp
  next
    case False
    then have "ahead y x" using total by blast
    with False Cons show ?thesis by (simp add: set_insert_by)
  qed
qed

lemma sorted_wrt_order_by:
  assumes "\<And>x y. ahead x y \<or> ahead y x"
    and "\<And>x y z. ahead x y \<Longrightarrow> ahead y z \<Longrightarrow> ahead x z"
  shows "sorted_wrt ahead (order_by ahead xs)"
  by (induction xs) (simp_all add: sorted_wrt_insert_by [OF assms])

lemma expense_before_total: "expense_before a b \<or> expense_before b a"
  by (auto simp: expense_before_def)

lemma expense_before_trans:
  "expense_before a b \<Longrightarrow> expense_before b c \<Longrightarrow> expense_before a c"
  by (auto simp: expense_before_def)

text \<open>
  C4: for every store and every pair of strings, \<^verbatim>\<open>list_expenses\<close> returns the expense rows
  whose date lies between the two (both ends included) in the lexicographic order of
  strings, each row as often as the table holds it and no other row; the result is
  ordered by date descending and, within a date, by identifier descending; when no row
  matches the result is the empty list.
\<close>

theorem list_expenses_range_order:
  "mset (list_expenses s start end)
     = filter_mset (\<lambda>r. start \<le> e_date r \<and> e_date r \<le> end) (mset (expenses s))
   \<and> sorted_wrt (\<lambda>a b. e_date b < e_date a \<or> (e_date a = e_date b \<and> e_id b \<le> e_id a))
        (list_expenses s start end)
   \<and> ((\<forall>r\<in>set (expenses s). \<not> (start \<le> e_date r \<and> e_date r \<le> end))
        \<longrightarrow> list_expenses s start end = [])"
proof -
  have "sorted_wrt expense_before (list_expenses s start end)"
    unfolding list_expenses_def
    by (rule sorted_wrt_order_by [OF expense_before_total expense_before_trans])
  then have "sorted_wrt (\<lambda>a b. e_date b < e_date a \<or> (e_date a = e_date b \<and> e_id b \<le> e_id a))
        (list_expenses s start end)"
    by (simp add: expense_before_def [abs_def])
  moreover have "mset (list_expenses s start end)
     = filter_mset (\<lambda>r. start \<le> e_date r \<and> e_date r \<le> end) (mset (expenses s))"
    by (simp add: list_expenses_def mset_order_by between_def)
  moreover have "(\<forall>r\<in>set (expenses s). \<not> (start \<le> e_date r \<and> e_date r \<le> end))
        \<longrightarrow> list_expenses s start end = []"
    by (simp add: list_expenses_def between_def)
  ultimately show ?thesis by blast
qed

theorem list_expenses_range_order_witness:
  "list_expenses example_store ''2024-01-06'' ''2024-01-31'' =
     [\<lparr>e_id = 5, e_date = ''2024-01-10'', e_amount = 7, e_category = ''Food & Dining'',
       e_subcategory = '''', e_note = ''''\<rparr>,
      \<lparr>e_id = 3, e_date = ''2024-01-10'', e_amount = 20, e_category = ''test'',
       e_subcategory = '''', e_note = ''probe?''\<rparr>]
   \<and> list_expenses example_store ''2024-02'' ''2024-03'' = []"
proof -
  have "list_expenses example_store ''2024-01-06'' ''2024-01-31'' =
     [\<lparr>e_id = 5, e_date = ''2024-01-10'', e_amount = 7, e_category = ''Food & Dining'',
       e_subcategory = '''', e_note = ''''\<rparr>,
      \<lparr>e_id = 3, e_date = ''2024-01-10'', e_amount = 20, e_category = ''test'',
       e_subcategory = '''', e_note = ''probe?''\<rparr>]"
    by (simp add: list_expenses_def example_store_def between_def expense_before_def)
  moreover have a: "\<forall>r\<in>set (expenses example_store).
      \<not> (''2024-02'' \<le> e_date r \<and> e_date r \<le> ''2024-03'')"
    by (simp add: example_store_def)
  ultimately show ?thesis
    using list_expenses_range_order [of example_store "''2024-02''" "''2024-03''"]
    by blast
qed




section \<open>Summaries\<close>

text \<open>
  C10: \<^verbatim>\<open>summarize\<close> tests its category argument by truth value, so the empty string is
  no filter: for every store and range the call with category \<^verbatim>\<open>""\<close> returns what the call
  without a category returns, whatever \<^verbatim>\<open>SUM\<close> computes.
\<close>

theorem summarize_empty_category:
  "summarize sum_amounts s start end (Some '''') = summarize sum_amounts s start end None"
  by (simp add: summarize_def)

section \<open>The self-test of the initializer\<close>

text \<open>
  C9: the self-test of \<^verbatim>\<open>init_db\<close> deletes by category. On an existing store (with a rowid
  left for the probe) it removes every expense row of category \<^verbatim>\<open>test\<close>, the callers' rows
  among them, keeps the other rows and uses up one identifier; on a new file it leaves no
  row and the sequence at 1, so that the first \<^verbatim>\<open>add_expense\<close> returns 2 (for an amount that
  can be bound; for an integer outside the 64-bit range it returns the error of the
  binding, as it does on every store).
\<close>

theorem init_db_self_test:
  "(largest_rowid (expenses_seq s) (map e_id (expenses s)) < max_rowid \<longrightarrow>
      init_db (Some s) =
        Inr (s\<lparr>expenses := filter (\<lambda>r. e_category r \<noteq> ''test'') (expenses s),
               expenses_seq := largest_rowid (expenses_seq s) (map e_id (expenses s)) + 1\<rparr>))
   \<and> init_db None = Inr \<lparr>expenses = [], income = [], expenses_seq = 1, income_seq = 0\<rparr>
   \<and> fst (add_expense \<lparr>expenses = [], income = [], expenses_seq = 1, income_seq = 0\<rparr>
            date amount category subcategory note)
       = (if bindable amount then Inr 2 else Inl Overflow)"
  by (simp add: init_db_def insert_expense_def Let_def empty_store_def largest_rowid_def
      max_rowid_def add_expense_def)

theorem init_db_self_test_witness:
  "largest_rowid (expenses_seq example_store) (map e_id (expenses example_store)) < max_rowid
   \<and> init_db (Some example_store) =
      Inr \<lparr>expenses =
            [\<lparr>e_id = 2, e_date = ''2024-01-05'', e_amount = 50,
              e_category = ''Food & Dining'', e_subcategory = ''lunch'', e_note = ''''\<rparr>,
             \<lparr>e_id = 5, e_date = ''2024-01-10'', e_amount = 7,
              e_category = ''Food & Dining'', e_subcategory = '''', e_note = ''''\<rparr>],
           income = income example_store, expenses_seq = 6, income_seq = 2\<rparr>"
proof -
  have a: "largest_rowid (expenses_seq example_store) (map e_id (expenses example_store))
             < max_rowid"
    by (simp add: example_store_def largest_rowid_def max_rowid_def)
  show ?thesis
    using a init_db_self_test [of example_store]
    by (simp add: example_store_def largest_rowid_def)
qed

section \<open>Identifiers\<close>

lemma largest_rowid_Max: "largest_rowid seq ids = Max (set (seq # ids))"
  by (simp only: largest_rowid_def Max.set_eq_fold)

lemma largest_rowid_ge_seq: "seq \<le> largest_rowid seq ids"
  by (simp add: largest_rowid_Max)

lemma largest_rowid_ge_id: "i \<in> set ids \<Longrightarrow> i \<le> largest_rowid seq ids"
  by (simp add: largest_rowid_Max)

lemma e_id_fold_assign: "e_id (fold assign_expense us r) = e_id r"
proof (induction us arbitrary: r)
  case Nil
  then show ?case by simp
next
  case (Cons u us)
  then show ?case by (cases u) simp_all
qed

lemma i_id_fold_assign: "i_id (fold assign_income us r) = i_id r"
proof (induction us arbitrary: r)
  case Nil
  then show ?case by simp
next
  case (Cons u us)
  then show ?case by (cases u) simp_all
qed

lemma insert_expense_ok:
  assumes "expenses_ok s" and "insert_expense s d a c sc n = Some (i, s')"
  shows "expenses_ok s' \<and> expenses_seq s < i \<and> expenses_seq s' = i \<and> income s' = income s
         \<and> income_seq s' = income_seq s"
proof -
  let ?top = "largest_rowid (expenses_seq s) (map e_id (expenses s))"
  have i: "i = ?top + 1"
    and s': "s' = s\<lparr>expenses := expenses s @
                [\<lparr>e_id = ?top + 1, e_date = d, e_amount = a, e_category = c,
                  e_subcategory = sc, e_note = n\<rparr>],
              expenses_seq := ?top + 1\<rparr>"
    using assms(2) by (auto simp: insert_expense_def Let_def split: if_splits)
  have below: "\<forall>r\<in>set (expenses s). e_id r \<le> ?top"
    by (simp add: largest_rowid_ge_id)
  then have fresh: "?top + 1 \<notin> e_id ` set (expenses s)"
    by fastforce
  have "expenses_ok s'"
    using assms(1) below fresh by (auto simp: expenses_ok_def ids_ok_def s' list_all_iff)
  moreover have "expenses_seq s < i"
    using largest_rowid_ge_seq [of "expenses_seq s" "map e_id (expenses s)"] i by simp
  ultimately show ?thesis by (simp add: s' i)
qed

lemma insert_income_ok:
  assumes "income_ok s" and "insert_income s d a src n = Some (i, s')"
  shows "income_ok s' \<and> income_seq s < i \<and> income_seq s' = i \<and> expenses s' = expenses s
         \<and> expenses_seq s' = expenses_seq s"
proof -
  let ?top = "largest_rowid (income_seq s) (map i_id (income s))"
  have i: "i = ?top + 1"
    and s': "s' = s\<lparr>income := income s @
                [\<lparr>i_id = ?top + 1, i_date = d, i_amount = a, i_source = src, i_note = n\<rparr>],
              income_seq := ?top + 1\<rparr>"
    using assms(2) by (auto simp: insert_income_def Let_def split: if_splits)
  have below: "\<forall>r\<in>set (income s). i_id r \<le> ?top"
    by (simp add: largest_rowid_ge_id)
  then have fresh: "?top + 1 \<notin> i_id ` set (income s)"
    by fastforce
  have "income_ok s'"
    using assms(1) below fresh by (auto simp: income_ok_def ids_ok_def s' list_all_iff)
  moreover have "income_seq s < i"
    using largest_rowid_ge_seq [of "income_seq s" "map i_id (income s)"] i by simp
  ultimately show ?thesis by (simp add: s' i)
qed

lemma expenses_ok_filter:
  "expenses_ok s \<Longrightarrow> expenses_seq s \<le> n \<Longrightarrow>
     expenses_ok (s\<lparr>expenses := filter P (expenses s), expenses_seq := n\<rparr>)"
  by (auto simp: expenses_ok_def ids_ok_def list_all_iff distinct_map_filter)

lemma income_ok_filter:
  "income_ok s \<Longrightarrow> income_ok (s\<lparr>income := filter P (income s)\<rparr>)"
  by (auto simp: income_ok_def ids_ok_def list_all_iff distinct_map_filter)

lemma map_e_id_edit:
  "map e_id (map (\<lambda>r. if e_id r = i then fold assign_expense us r else r) xs) = map e_id xs"
  by (induction xs) (simp_all add: e_id_fold_assign)

lemma map_i_id_edit:
  "map i_id (map (\<lambda>r. if i_id r = i then fold assign_income us r else r) xs) = map i_id xs"
  by (induction xs) (simp_all add: i_id_fold_assign)

lemma expenses_ok_edit:
  "expenses_ok s \<Longrightarrow>
     expenses_ok (s\<lparr>expenses :=
       map (\<lambda>r. if e_id r = i then fold assign_expense us r else r) (expenses s)\<rparr>)"
  by (simp add: expenses_ok_def ids_ok_def map_e_id_edit del: map_map)

lemma income_ok_edit:
  "income_ok s \<Longrightarrow>
     income_ok (s\<lparr>income :=
       map (\<lambda>r. if i_id r = i then fold assign_income us r else r) (income s)\<rparr>)"
  by (simp add: income_ok_def ids_ok_def map_i_id_edit del: map_map)


lemma ok_frame [simp]:
  "expenses_ok (s\<lparr>income := x\<rparr>) = expenses_ok s"
  "income_ok (s\<lparr>expenses := y\<rparr>) = income_ok s"
  "income_ok (s\<lparr>expenses_seq := n\<rparr>) = income_ok s"
  by (simp_all add: expenses_ok_def income_ok_def)

lemma exec_step:
  assumes "store_ok s"
  shows "store_ok (exec s c)
    \<and> expenses_seq s \<le> expenses_seq (exec s c) \<and> income_seq s \<le> income_seq (exec s c)
    \<and> list_all (\<lambda>i. expenses_seq s < i \<and> i \<le> expenses_seq (exec s c)) (new_expense_ids s c)
    \<and> list_all (\<lambda>i. income_seq s < i \<and> i \<le> income_seq (exec s c)) (new_income_ids s c)
    \<and> length (new_expense_ids s c) \<le> 1 \<and> length (new_income_ids s c) \<le> 1"
proof (cases c)
  case (Add_expense d a cat sc n)
  show ?thesis
  proof (cases "insert_expense s d (sqlite_real a) cat (case sc of None \<Rightarrow> '''' | Some x \<Rightarrow> x)
                  (case n of None \<Rightarrow> '''' | Some x \<Rightarrow> x)")
    case None
    with assms Add_expense show ?thesis by (simp add: add_expense_def)
  next
    case (Some p)
    obtain i s' where p: "p = (i, s')" by (cases p)
    from insert_expense_ok [OF _ Some [unfolded p]] assms
    have "expenses_ok s' \<and> expenses_seq s < i \<and> expenses_seq s' = i \<and> income s' = income s
         \<and> income_seq s' = income_seq s"
      by (simp add: store_ok_def)
    with assms Add_expense Some p show ?thesis
      by (simp add: add_expense_def store_ok_def income_ok_def)
  qed
next
  case (Edit_expense i d a cat sc n)
  with assms show ?thesis
    by (simp add: edit_expense_def store_ok_def expenses_ok_edit Let_def split: option.split)
next
  case (Delete_expense i)
  with assms expenses_ok_filter [of s "expenses_seq s" "\<lambda>r. e_id r \<noteq> i"] show ?thesis
    by (simp add: delete_expense_def store_ok_def split: option.split)
next
  case (Add_income d a src n)
  show ?thesis
  proof (cases "insert_income s d (sqlite_real a) src (case n of None \<Rightarrow> '''' | Some x \<Rightarrow> x)")
    case None
    with assms Add_income show ?thesis by (simp add: add_income_def)
  next
    case (Some p)
    obtain i s' where p: "p = (i, s')" by (cases p)
    from insert_income_ok [OF _ Some [unfolded p]] assms
    have "income_ok s' \<and> income_seq s < i \<and> income_seq s' = i \<and> expenses s' = expenses s
         \<and> expenses_seq s' = expenses_seq s"
      by (simp add: store_ok_def)
    with assms Add_income Some p show ?thesis
      by (simp add: add_income_def store_ok_def expenses_ok_def)
  qed
next
  case (Edit_income i d a src n)
  with assms show ?thesis
    by (simp add: edit_income_def store_ok_def income_ok_edit Let_def split: option.split)
next
  case (Delete_income i)
  with assms show ?thesis
    by (simp add: delete_income_def store_ok_def income_ok_filter split: option.split)
next
  case Restart
  show ?thesis
  proof (cases "insert_expense s ''2000-01-01'' 0 ''test'' '''' ''''")
    case None
    with assms Restart show ?thesis by (simp add: init_db_def)
  next
    case (Some p)
    obtain i s1 where p: "p = (i, s1)" by (cases p)
    from insert_expense_ok [OF _ Some [unfolded p]] assms
    have s1: "expenses_ok s1 \<and> expenses_seq s < i \<and> expenses_seq s1 = i \<and> income s1 = income s
         \<and> income_seq s1 = income_seq s"
      by (simp add: store_ok_def)
    then have "expenses_ok (s1\<lparr>expenses := filter (\<lambda>r. e_category r \<noteq> ''test'') (expenses s1),
                 expenses_seq := i\<rparr>)"
      using expenses_ok_filter [of s1 i] by simp
    with s1 have "expenses_ok (s1\<lparr>expenses := filter (\<lambda>r. e_category r \<noteq> ''test'') (expenses s1)\<rparr>)"
      by (simp add: expenses_ok_def)
    with assms Restart Some p s1 show ?thesis
      by (simp add: init_db_def store_ok_def income_ok_def)
  qed
qed

lemma assigned_expense_ids_increasing:
  "store_ok s \<Longrightarrow>
     sorted_wrt (<) (assigned_expense_ids s cs)
     \<and> list_all (\<lambda>i. expenses_seq s < i) (assigned_expense_ids s cs)"
proof (induction cs arbitrary: s)
  case Nil
  then show ?case by simp
next
  case (Cons c cs)
  note step = exec_step [OF Cons.prems, of c]
  then have ok: "store_ok (exec s c)" by blast
  note IH = Cons.IH [OF ok]
  have one: "sorted_wrt (<) (new_expense_ids s c)"
    using step by (cases "new_expense_ids s c") auto
  have later: "\<forall>x\<in>set (new_expense_ids s c). \<forall>y\<in>set (assigned_expense_ids (exec s c) cs). x < y"
    using step IH by (fastforce simp: list_all_iff)
  have above: "list_all (\<lambda>i. expenses_seq s < i) (assigned_expense_ids (exec s c) cs)"
    using step IH by (fastforce simp: list_all_iff)
  show ?case
    using one later above step IH by (auto simp: sorted_wrt_append list_all_iff)
qed

lemma assigned_income_ids_increasing:
  "store_ok s \<Longrightarrow>
     sorted_wrt (<) (assigned_income_ids s cs)
     \<and> list_all (\<lambda>i. income_seq s < i) (assigned_income_ids s cs)"
proof (induction cs arbitrary: s)
  case Nil
  then show ?case by simp
next
  case (Cons c cs)
  note step = exec_step [OF Cons.prems, of c]
  then have ok: "store_ok (exec s c)" by blast
  note IH = Cons.IH [OF ok]
  have one: "sorted_wrt (<) (new_income_ids s c)"
    using step by (cases "new_income_ids s c") auto
  have later: "\<forall>x\<in>set (new_income_ids s c). \<forall>y\<in>set (assigned_income_ids (exec s c) cs). x < y"
    using step IH by (fastforce simp: list_all_iff)
  have above: "list_all (\<lambda>i. income_seq s < i) (assigned_income_ids (exec s c) cs)"
    using step IH by (fastforce simp: list_all_iff)
  show ?case
    using one later above step IH by (auto simp: sorted_wrt_append list_all_iff)
qed

lemma run_ok: "store_ok s \<Longrightarrow> store_ok (run s cs)"
  by (induction cs arbitrary: s) (simp_all add: exec_step)

lemma init_db_new_file:
  "init_db None = Inr \<lparr>expenses = [], income = [], expenses_seq = 1, income_seq = 0\<rparr>"
  by (simp add: init_db_def insert_expense_def Let_def empty_store_def largest_rowid_def
      max_rowid_def)

text \<open>
  C8: start from a new file and make any sequence of adds, edits, deletes and new starts
  of the process. In the store reached no identifier occurs twice in a table. The
  identifiers given out along the way, in the order in which they are given out (those of
  the probes of \<^verbatim>\<open>init_db\<close> included, and 1 is the probe's of the first start), are strictly
  increasing in each table: none is given out a second time, whether or not its row has
  been deleted in between.
\<close>

theorem identifiers_unique_never_reused:
  assumes "init_db None = Inr s0"
  shows "distinct (map e_id (expenses (run s0 calls)))
    \<and> distinct (map i_id (income (run s0 calls)))
    \<and> sorted_wrt (<) (assigned_expense_ids s0 calls)
    \<and> distinct (assigned_expense_ids s0 calls)
    \<and> 1 \<notin> set (assigned_expense_ids s0 calls)
    \<and> sorted_wrt (<) (assigned_income_ids s0 calls)
    \<and> distinct (assigned_income_ids s0 calls)"
proof -
  have s0: "s0 = \<lparr>expenses = [], income = [], expenses_seq = 1, income_seq = 0\<rparr>"
    using assms by (simp add: init_db_new_file)
  have ok: "store_ok s0"
    by (simp add: s0 store_ok_def expenses_ok_def income_ok_def ids_ok_def)
  have "store_ok (run s0 calls)"
    using ok by (rule run_ok)
  then have tables: "distinct (map e_id (expenses (run s0 calls)))
      \<and> distinct (map i_id (income (run s0 calls)))"
    by (simp add: store_ok_def expenses_ok_def income_ok_def ids_ok_def)
  have e: "sorted_wrt (<) (assigned_expense_ids s0 calls)
      \<and> list_all (\<lambda>i. expenses_seq s0 < i) (assigned_expense_ids s0 calls)"
    using ok by (rule assigned_expense_ids_increasing)
  have i: "sorted_wrt (<) (assigned_income_ids s0 calls)"
    using assigned_income_ids_increasing [OF ok] by blast
  have "1 \<notin> set (assigned_expense_ids s0 calls)"
    using e by (auto simp: list_all_iff s0)
  with tables e i show ?thesis
    by (simp add: strict_sorted_iff)
qed

theorem identifiers_unique_never_reused_witness:
  "init_db None = Inr \<lparr>expenses = [], income = [], expenses_seq = 1, income_seq = 0\<rparr>
   \<and> assigned_expense_ids \<lparr>expenses = [], income = [], expenses_seq = 1, income_seq = 0\<rparr>
       [Add_expense ''2024-01-05'' (PyInt 50) ''Food & Dining'' None None, Delete_expense 2, Restart,
        Add_expense ''2024-01-10'' (PyFloat 20.5) ''test'' None (Some ''x''),
        Add_income ''2024-01-07'' (PyInt 1000) ''Salary'' None, Delete_income 1,
        Add_income ''2024-02-07'' (PyInt 1000) ''Salary'' None, Restart,
        Add_expense ''2024-01-11'' (PyInt 3) ''Travel'' None None] = [2, 3, 4, 5, 6]
   \<and> distinct (assigned_expense_ids \<lparr>expenses = [], income = [], expenses_seq = 1, income_seq = 0\<rparr>
       [Add_expense ''2024-01-05'' (PyInt 50) ''Food & Dining'' None None, Delete_expense 2, Restart,
        Add_expense ''2024-01-10'' (PyFloat 20.5) ''test'' None (Some ''x''),
        Add_income ''2024-01-07'' (PyInt 1000) ''Salary'' None, Delete_income 1,
        Add_income ''2024-02-07'' (PyInt 1000) ''Salary'' None, Restart,
        Add_expense ''2024-01-11'' (PyInt 3) ''Travel'' None None])
   \<and> map e_id (expenses (run \<lparr>expenses = [], income = [], expenses_seq = 1, income_seq = 0\<rparr>
       [Add_expense ''2024-01-05'' (PyInt 50) ''Food & Dining'' None None, Delete_expense 2, Restart,
        Add_expense ''2024-01-10'' (PyFloat 20.5) ''test'' None (Some ''x''),
        Add_income ''2024-01-07'' (PyInt 1000) ''Salary'' None, Delete_income 1,
        Add_income ''2024-02-07'' (PyInt 1000) ''Salary'' None, Restart,
        Add_expense ''2024-01-11'' (PyInt 3) ''Travel'' None None])) = [6]"
proof -
  have a: "init_db None = Inr \<lparr>expenses = [], income = [], expenses_seq = 1, income_seq = 0\<rparr>"
    by (simp add: init_db_def insert_expense_def Let_def empty_store_def largest_rowid_def
      max_rowid_def)
  show ?thesis
    using a identifiers_unique_never_reused [OF a]
    by (simp add: init_db_def insert_expense_def insert_income_def Let_def largest_rowid_def
      max_rowid_def add_expense_def add_income_def delete_expense_def delete_income_def
      int64_def)
qed

end
